theory Spec2Isabelle
  imports Main
begin

section \<open>JavaScript values and objects\<close>

text \<open>
  The values that reach the functions of \<^verbatim>\<open>src/index.ts\<close> at run time. The
  TypeScript types are erased, so an option may be bound to any value. \<open>JNum\<close> carries
  the integral numbers (the only ones whose value matters below: zero is falsy, and a
  non-negative integral \<^verbatim>\<open>length\<close> makes an object array-like for lodash);
  \<open>JNaN\<close> is the other falsy number. \<open>JFun\<close> names a function value.
\<close>

datatype jsval =
    JUndefined
  | JNull
  | JBool bool
  | JNum int
  | JNaN
  | JStr string
  | JArr "jsval list"
  | JObj "(string \<times> jsval) list"
  | JFun string

text \<open>
  A plain object: its own enumerable string-keyed properties in enumeration order, each
  key once. Only the order among the keys that are no array indices shows below: a key
  that is an array index never yields a token.
\<close>

type_synonym jsobj = "(string \<times> jsval) list"

text \<open>The conversion to boolean made by \<^verbatim>\<open>if (value)\<close>.\<close>

fun truthy :: "jsval \<Rightarrow> bool" where
  "truthy JUndefined = False"
| "truthy JNull = False"
| "truthy (JBool b) = b"
| "truthy (JNum n) = (n \<noteq> 0)"
| "truthy JNaN = False"
| "truthy (JStr s) = (s \<noteq> [])"
| "truthy (JArr xs) = True"
| "truthy (JObj ps) = True"
| "truthy (JFun f) = True"

text \<open>The \<^verbatim>\<open>typeof\<close> operator.\<close>

fun typeof :: "jsval \<Rightarrow> string" where
  "typeof JUndefined = ''undefined''"
| "typeof JNull = ''object''"
| "typeof (JBool b) = ''boolean''"
| "typeof (JNum n) = ''number''"
| "typeof JNaN = ''number''"
| "typeof (JStr s) = ''string''"
| "typeof (JArr xs) = ''object''"
| "typeof (JObj ps) = ''object''"
| "typeof (JFun f) = ''function''"

text \<open>Reading a property: \<^verbatim>\<open>obj[k]\<close> is \<^verbatim>\<open>undefined\<close> for a missing key.\<close>

definition get_prop :: "jsobj \<Rightarrow> string \<Rightarrow> jsval" where
  "get_prop obj k = (case map_of obj k of None \<Rightarrow> JUndefined | Some v \<Rightarrow> v)"

text \<open>
  Assigning a property: \<^verbatim>\<open>obj[k] = v\<close> keeps the position of an existing key and
  appends a new one.
\<close>

fun set_prop :: "string \<Rightarrow> jsval \<Rightarrow> jsobj \<Rightarrow> jsobj" where
  "set_prop k v [] = [(k, v)]"
| "set_prop k v (p # ps) = (if fst p = k then (k, v) # ps else p # set_prop k v ps)"

text \<open>The decimal text of an array index, as \<^verbatim>\<open>String(i)\<close> gives it.\<close>

definition digit_char :: "nat \<Rightarrow> char" where
  "digit_char d = ''0123456789'' ! d"

function decimal :: "nat \<Rightarrow> string" where
  "decimal n = (if n < 10 then [digit_char n] else decimal (n div 10) @ [digit_char (n mod 10)])"
  by pat_completeness auto
termination
  by (relation "measure id") auto

declare decimal.simps [simp del]

section \<open>Thrown values\<close>

text \<open>
  What a \<^verbatim>\<open>throw\<close> can carry here: a string (the two string throws of the source), an
  object, or \<^verbatim>\<open>null\<close>, the one non-object for which \<^verbatim>\<open>typeof\<close> answers
  \<^verbatim>\<open>"object"\<close>. An object is seen through its \<^verbatim>\<open>code\<close> and \<^verbatim>\<open>message\<close>
  properties and through the text that string concatenation makes of it.
\<close>

record jserror =
  code :: jsval
  message :: jsval
  text_of :: string

datatype thrown =
    ThrowString string
  | ThrowNull
  | ThrowObject jserror

text \<open>\<^verbatim>\<open>new Error(msg)\<close>: no code; \<^verbatim>\<open>Error.prototype.toString\<close> gives the text.\<close>

definition new_Error :: "string \<Rightarrow> thrown" where
  "new_Error msg =
     ThrowObject \<lparr>code = JUndefined, message = JStr msg,
                  text_of = (if msg = [] then ''Error'' else ''Error: '' @ msg)\<rparr>"

text \<open>\<^verbatim>\<open>Array(n)\<close> with \<open>n\<close> above \<open>2^32 - 1\<close>.\<close>

definition RangeError_length :: thrown where
  "RangeError_length =
     ThrowObject \<lparr>code = JUndefined, message = JStr ''Invalid array length'',
                  text_of = ''RangeError: Invalid array length''\<rparr>"

definition squote :: char where
  "squote = CHR 0x27"

text \<open>
  Reading the property \<open>k\<close> of \<^verbatim>\<open>undefined\<close> or \<^verbatim>\<open>null\<close> (\<open>what\<close> names which):
  a \<^verbatim>\<open>TypeError\<close>, with the message that Node gives it.
\<close>

definition TypeError_read :: "string \<Rightarrow> string \<Rightarrow> thrown" where
  "TypeError_read what k =
     ThrowObject
       \<lparr>code = JUndefined,
        message = JStr (''Cannot read properties of '' @ what @ '' (reading '' @
                        [squote] @ k @ [squote] @ '')''),
        text_of = ''TypeError: Cannot read properties of '' @ what @ '' (reading '' @
                  [squote] @ k @ [squote] @ '')''\<rparr>"

section \<open>The lodash functions the source calls\<close>

text \<open>
  \<^verbatim>\<open>_.keys\<close>, \<^verbatim>\<open>_.defaults\<close>, \<^verbatim>\<open>_.map\<close>, \<^verbatim>\<open>_.flatten\<close> and
  \<^verbatim>\<open>_.concat\<close> of lodash 4, on plain objects and arrays.
\<close>

definition lodash_keys :: "jsobj \<Rightarrow> string list" where
  "lodash_keys obj = map fst obj"

text \<open>
  \<^verbatim>\<open>_.defaults(object, ...sources)\<close>: sources from left to right, keys in order; a key
  is assigned when the destination resolves it to \<^verbatim>\<open>undefined\<close>.
\<close>

definition assign_default :: "jsobj \<Rightarrow> string \<times> jsval \<Rightarrow> jsobj" where
  "assign_default object p =
     (if get_prop object (fst p) = JUndefined then set_prop (fst p) (snd p) object else object)"

definition lodash_defaults :: "jsobj \<Rightarrow> jsobj list \<Rightarrow> jsobj" where
  "lodash_defaults object sources = foldl (\<lambda>obj source. foldl assign_default obj source) object sources"

text \<open>
  \<^verbatim>\<open>isArrayLike\<close>: the collection functions of lodash iterate an object like an array,
  by index and not by key, when its \<^verbatim>\<open>length\<close> is an integral number from \<open>0\<close> to
  \<open>2^53 - 1\<close> (its documentation points to \<^verbatim>\<open>_.forIn\<close> and \<^verbatim>\<open>_.forOwn\<close> to avoid
  this).
\<close>

definition isArrayLike :: "jsobj \<Rightarrow> bool" where
  "isArrayLike obj =
     (case get_prop obj ''length'' of
        JNum n \<Rightarrow> 0 \<le> n \<and> n \<le> 9007199254740991
      | _ \<Rightarrow> False)"

text \<open>The key the iteratee receives: a property name, or an index of an array-like.\<close>

datatype propkey = Name string | Index nat

fun key_text :: "propkey \<Rightarrow> string" where
  "key_text (Name k) = k"
| "key_text (Index i) = decimal i"

text \<open>Calls in sequence; the first throw ends the iteration.\<close>

fun traverse :: "('a \<Rightarrow> thrown + 'b) \<Rightarrow> 'a list \<Rightarrow> thrown + 'b list" where
  "traverse f [] = Inr []"
| "traverse f (x # xs) =
     (case f x of
        Inl e \<Rightarrow> Inl e
      | Inr y \<Rightarrow> (case traverse f xs of Inl e \<Rightarrow> Inl e | Inr ys \<Rightarrow> Inr (y # ys)))"

text \<open>
  \<^verbatim>\<open>_.map(collection, iteratee)\<close> on an object. An array-like object gets
  \<^verbatim>\<open>Array(length)\<close> for its result and is visited at the indices below its length; any
  other object is visited at its own keys, in enumeration order.
\<close>

definition lodash_map :: "jsobj \<Rightarrow> (jsval \<Rightarrow> propkey \<Rightarrow> thrown + 'b) \<Rightarrow> thrown + 'b list" where
  "lodash_map collection iteratee =
     (if isArrayLike collection then
        (case get_prop collection ''length'' of
           JNum n \<Rightarrow>
             if n > 4294967295 then Inl RangeError_length
             else traverse (\<lambda>i. iteratee (get_prop collection (decimal i)) (Index i)) [0..<nat n]
         | _ \<Rightarrow> Inr [])
      else traverse (\<lambda>p. iteratee (snd p) (Name (fst p))) collection)"

text \<open>\<^verbatim>\<open>_.flatten\<close>, one level deep, of an array whose elements are arrays.\<close>

definition lodash_flatten :: "'b list list \<Rightarrow> 'b list" where
  "lodash_flatten xss = concat xss"

text \<open>\<^verbatim>\<open>_.concat(array, ...values)\<close>: an array among the values is spread, one level.\<close>

fun spread :: "jsval \<Rightarrow> jsval list" where
  "spread (JArr xs) = xs"
| "spread v = [v]"

definition lodash_concat :: "jsval list \<Rightarrow> jsval list \<Rightarrow> jsval list" where
  "lodash_concat array vals = array @ concat (map spread vals)"

section \<open>Options\<close>

text \<open>
  \<^verbatim>\<open>defaultOptions\<close>, with the imported \<^verbatim>\<open>spawn\<close> binding as a parameter; its
  keys, the supported options, do not depend on that binding.
\<close>

definition defaultOptions :: "jsval \<Rightarrow> jsobj" where
  "defaultOptions spawn =
     [(''spawn'', spawn),
      (''runtimeOptions'', JUndefined),
      (''cwd'', JUndefined),
      (''pathToElm'', JUndefined),
      (''help'', JUndefined),
      (''output'', JUndefined),
      (''report'', JUndefined),
      (''debug'', JUndefined),
      (''verbose'', JBool False),
      (''processOpts'', JUndefined),
      (''docs'', JUndefined),
      (''optimize'', JUndefined)]"

definition supportedOptions :: "string list" where
  "supportedOptions = lodash_keys (defaultOptions JUndefined)"

definition prepareOptions :: "jsval \<Rightarrow> jsobj \<Rightarrow> jsval \<Rightarrow> jsobj" where
  "prepareOptions spawn options spawnFn =
     lodash_defaults [(''spawn'', spawnFn)] [options, defaultOptions spawn]"

section \<open>Building the argument list\<close>

definition msg_yes :: string where
  "msg_yes = ''node-elm-compiler received the `yes` option, but that was removed in Elm 0.19. Try re-running without passing the `yes` option.''"

definition msg_warn :: string where
  "msg_warn = ''node-elm-compiler received the `warn` option, but that was removed in Elm 0.19. Try re-running without passing the `warn` option.''"

definition msg_pathToMake :: string where
  "msg_pathToMake = ''node-elm-compiler received the `pathToMake` option, but that was renamed to `pathToElm` in Elm 0.19. Try re-running after renaming the parameter to `pathToElm`.''"

definition msg_unrecognized :: "string \<Rightarrow> string" where
  "msg_unrecognized opt = ''node-elm-compiler was given an unrecognized Elm compiler option: '' @ opt"

text \<open>
  The \<^verbatim>\<open>default:\<close> branch of the switch. \<^verbatim>\<open>indexOf\<close> and \<^verbatim>\<open>===\<close> compare
  strictly, so an index (a number) is never a supported option and never a legacy name.
\<close>

definition unsupported :: "propkey \<Rightarrow> bool" where
  "unsupported opt = (case opt of Name k \<Rightarrow> k \<notin> set supportedOptions | Index i \<Rightarrow> True)"

definition defaultCase :: "propkey \<Rightarrow> thrown + jsval list" where
  "defaultCase opt =
     (if unsupported opt then
        (if opt = Name ''yes'' then Inl (new_Error msg_yes)
         else if opt = Name ''warn'' then Inl (new_Error msg_warn)
         else if opt = Name ''pathToMake'' then Inl (new_Error msg_pathToMake)
         else Inl (new_Error (msg_unrecognized (key_text opt))))
      else Inr [])"

text \<open>The iteratee of \<^verbatim>\<open>compilerArgsFromOptions\<close>.\<close>

definition optionArgs :: "jsval \<Rightarrow> propkey \<Rightarrow> thrown + jsval list" where
  "optionArgs val opt =
     (if truthy val then
        (if opt = Name ''help'' then Inr [JStr ''--help'']
         else if opt = Name ''output'' then Inr [JStr ''--output'', val]
         else if opt = Name ''report'' then Inr [JStr ''--report'', val]
         else if opt = Name ''debug'' then Inr [JStr ''--debug'']
         else if opt = Name ''docs'' then Inr [JStr ''--docs'', val]
         else if opt = Name ''optimize'' then Inr [JStr ''--optimize'']
         else if opt = Name ''runtimeOptions'' then
           Inr (lodash_concat [JStr ''+RTS''] [val, JArr [JStr ''-RTS'']])
         else defaultCase opt)
      else Inr [])"

definition compilerArgsFromOptions :: "jsobj \<Rightarrow> thrown + jsval list" where
  "compilerArgsFromOptions options =
     (case lodash_map options optionArgs of
        Inl e \<Rightarrow> Inl e
      | Inr xss \<Rightarrow> Inr (lodash_flatten xss))"

definition msg_sources :: string where
  "msg_sources = ''compile() received neither an Array nor a String for its sources argument.''"

fun prepareSources :: "jsval \<Rightarrow> thrown + jsval list" where
  "prepareSources (JArr xs) = Inr xs"
| "prepareSources (JStr s) = Inr [JStr s]"
| "prepareSources v = Inl (ThrowString msg_sources)"

text \<open>
  \<^verbatim>\<open>["make"].concat(preparedSources ? preparedSources.concat(compilerArgs) : compilerArgs)\<close>;
  \<^verbatim>\<open>Array.prototype.concat\<close> spreads its array argument.
\<close>

definition prepareProcessArgs :: "jsval \<Rightarrow> jsobj \<Rightarrow> thrown + jsval list" where
  "prepareProcessArgs sources options =
     (case prepareSources sources of
        Inl e \<Rightarrow> Inl e
      | Inr preparedSources \<Rightarrow>
          (case compilerArgsFromOptions options of
             Inl e \<Rightarrow> Inl e
           | Inr compilerArgs \<Rightarrow>
               Inr ([JStr ''make''] @
                    (if truthy (JArr preparedSources) then preparedSources @ compilerArgs
                     else compilerArgs))))"

section \<open>Classifying a thrown value\<close>

definition dquote :: char where
  "dquote = CHR 0x22"

definition backslash :: char where
  "backslash = CHR 0x5C"

definition newline :: char where
  "newline = CHR 0x0A"

definition hex_char :: "nat \<Rightarrow> char" where
  "hex_char d = ''0123456789abcdef'' ! d"

text \<open>
  \<^verbatim>\<open>JSON.stringify\<close> of a string: the quoted text, with the quote, the backslash and
  the control characters escaped.
\<close>

definition json_escape :: "char \<Rightarrow> string" where
  "json_escape c =
     (if c = dquote then [backslash, dquote]
      else if c = backslash then [backslash, backslash]
      else if c = CHR 0x08 then [backslash, CHR ''b'']
      else if c = CHR 0x0C then [backslash, CHR ''f'']
      else if c = CHR 0x0A then [backslash, CHR ''n'']
      else if c = CHR 0x0D then [backslash, CHR ''r'']
      else if c = CHR 0x09 then [backslash, CHR ''t'']
      else if (of_char c :: nat) < 32 then
        [backslash, CHR ''u'', CHR ''0'', CHR ''0'',
         hex_char ((of_char c :: nat) div 16), hex_char ((of_char c :: nat) mod 16)]
      else [c])"

definition JSON_stringify :: "string \<Rightarrow> string" where
  "JSON_stringify s = [dquote] @ concat (map json_escape s) @ [dquote]"

definition msg_ENOENT :: "string \<Rightarrow> string" where
  "msg_ENOENT pathToElm =
     ''Could not find Elm compiler '' @ [dquote] @ pathToElm @ [dquote] @ ''. Is it installed?''"

definition msg_EACCES :: "string \<Rightarrow> string" where
  "msg_EACCES pathToElm =
     ''Elm compiler '' @ [dquote] @ pathToElm @ [dquote] @
     '' did not have permission to run. Do you need to give it executable permissions?''"

definition msg_attempt :: "string \<Rightarrow> string \<Rightarrow> string" where
  "msg_attempt pathToElm err =
     ''Error attempting to run Elm compiler '' @ [dquote] @ pathToElm @ [dquote] @ '':'' @
     [newline] @ err"

definition msg_exception :: "string \<Rightarrow> string" where
  "msg_exception pathToElm =
     ''Exception thrown when attempting to run Elm compiler '' @ JSON_stringify pathToElm"

text \<open>
  \<^verbatim>\<open>compilerErrorToString\<close>. A string is no object, so both tests fail for it;
  \<^verbatim>\<open>null\<close> passes \<^verbatim>\<open>typeof err === "object"\<close> and reading its
  \<^verbatim>\<open>code\<close> throws.
\<close>

fun compilerErrorToString :: "thrown \<Rightarrow> string \<Rightarrow> thrown + string" where
  "compilerErrorToString (ThrowString s) pathToElm = Inr (msg_exception pathToElm)"
| "compilerErrorToString ThrowNull pathToElm = Inl (TypeError_read ''null'' ''code'')"
| "compilerErrorToString (ThrowObject err) pathToElm =
     (case code err of
        JStr c \<Rightarrow>
          (if c = ''ENOENT'' then Inr (msg_ENOENT pathToElm)
           else if c = ''EACCES'' then Inr (msg_EACCES pathToElm)
           else Inr (msg_attempt pathToElm (text_of err)))
      | _ \<Rightarrow>
          (case message err of
             JStr m \<Rightarrow> Inr (JSON_stringify m)
           | _ \<Rightarrow> Inr (msg_exception pathToElm)))"

section \<open>Running the compiler\<close>

text \<open>
  What \<^verbatim>\<open>processOptions\<close> of \<^verbatim>\<open>./options\<close> returns, as far as this file reads it.
\<close>

record ProcessedOptions =
  pathToElm :: string
  processOpts :: jsval

text \<open>
  A run of the compiler process, as the listeners of its handle see it: the data chunks
  of its two piped streams in order of arrival, then the close event with the exit code
  (\<open>None\<close> for \<^verbatim>\<open>null\<close>, a process ended by a signal).
\<close>

datatype stream = Stdout | Stderr

record child =
  chunks :: "(stream \<times> string) list"
  exitCode :: "int option"

text \<open>
  The collaborators outside this file, as parameters: the \<^verbatim>\<open>spawn\<close> binding imported
  from cross-spawn, the \<^verbatim>\<open>sync\<close> property of that binding where it is a function,
  \<^verbatim>\<open>processOptions\<close>, what calling a function value with a path, an argument list and
  process options does, \<^verbatim>\<open>path.extname\<close> (which answers with the extension or throws,
  as it does for an argument that is no string), the temp-file facility and the file
  reads.
\<close>

record env =
  spawn_module :: jsval
  spawn_sync :: jsval
  processOptions :: "jsobj \<Rightarrow> thrown + ProcessedOptions"
  invoke :: "string \<Rightarrow> string \<Rightarrow> jsval list \<Rightarrow> jsval \<Rightarrow> thrown + child"
  path_extname :: "jsval \<Rightarrow> thrown + string"
  temp_open :: "string \<Rightarrow> thrown + string"
  temp_openSync :: "string \<Rightarrow> thrown + string"
  readFile :: "string \<Rightarrow> thrown + string"
  readFileSync :: "string \<Rightarrow> thrown + string"

text \<open>
  The effects: every call of a process-execution function (its name, the path, the
  arguments, the process options), and the lines given to \<^verbatim>\<open>console.log\<close>, an
  array joined by spaces or a text.
\<close>

datatype logline = LogJoined "jsval list" | LogText string

record world =
  spawn_calls :: "(string \<times> string \<times> jsval list \<times> jsval) list"
  console :: "logline list"

definition console_log :: "logline \<Rightarrow> world \<Rightarrow> world" where
  "console_log l w = w\<lparr>console := console w @ [l]\<rparr>"

definition TypeError_not_function :: thrown where
  "TypeError_not_function =
     ThrowObject \<lparr>code = JUndefined, message = JStr ''options.spawn is not a function'',
                  text_of = ''TypeError: options.spawn is not a function''\<rparr>"

definition call_spawn ::
    "env \<Rightarrow> jsval \<Rightarrow> string \<Rightarrow> jsval list \<Rightarrow> jsval \<Rightarrow> world \<Rightarrow> (thrown + child) \<times> world" where
  "call_spawn E f path args opts w =
     (case f of
        JFun name \<Rightarrow>
          (invoke E name path args opts,
           w\<lparr>spawn_calls := spawn_calls w @ [(name, path, args, opts)]\<rparr>)
      | _ \<Rightarrow> (Inl TypeError_not_function, w))"

definition msg_spawn :: "jsval \<Rightarrow> string" where
  "msg_spawn f = ''options.spawn was a(n) '' @ typeof f @ '' instead of a function.''"

definition runCompiler ::
    "env \<Rightarrow> jsval \<Rightarrow> jsobj \<Rightarrow> ProcessedOptions \<Rightarrow> world \<Rightarrow> (thrown + child) \<times> world" where
  "runCompiler E sources options processedOptions w =
     (if typeof (get_prop options ''spawn'') \<noteq> ''function'' then
        (Inl (ThrowString (msg_spawn (get_prop options ''spawn''))), w)
      else
        (case prepareProcessArgs sources options of
           Inl e \<Rightarrow> (Inl e, w)
         | Inr processArgs \<Rightarrow>
             call_spawn E (get_prop options ''spawn'') (pathToElm processedOptions) processArgs
               (processOpts processedOptions)
               (if truthy (get_prop options ''verbose'') then
                  console_log
                    (LogJoined ([JStr ''Running'', JStr (pathToElm processedOptions)] @ processArgs)) w
                else w)))"

text \<open>
  The \<^verbatim>\<open>catch\<close> of \<^verbatim>\<open>compile\<close> and \<^verbatim>\<open>compileSync\<close>: whatever was thrown is
  replaced by a new \<^verbatim>\<open>Error\<close> whose message is the classifier's text.
\<close>

definition rethrow :: "thrown \<Rightarrow> string \<Rightarrow> thrown" where
  "rethrow err path =
     (case compilerErrorToString err path of Inl e \<Rightarrow> e | Inr msg \<Rightarrow> new_Error msg)"

text \<open>
  \<^verbatim>\<open>compile\<close>: \<^verbatim>\<open>processOptions\<close> and \<^verbatim>\<open>prepareOptions\<close> run before the
  \<^verbatim>\<open>try\<close>, \<^verbatim>\<open>runCompiler\<close> inside it. The listener that \<^verbatim>\<open>compile\<close>
  registers for the handle's error event runs after \<^verbatim>\<open>compile\<close> has returned and is
  outside this model.
\<close>

definition compile :: "env \<Rightarrow> jsval \<Rightarrow> jsobj \<Rightarrow> world \<Rightarrow> (thrown + child) \<times> world" where
  "compile E sources options w =
     (case processOptions E options of
        Inl e \<Rightarrow> (Inl e, w)
      | Inr processedOptions \<Rightarrow>
          (let optionsWithDefaults = prepareOptions (spawn_module E) options (spawn_module E)
           in case runCompiler E sources optionsWithDefaults processedOptions w of
                (Inr compiler, w') \<Rightarrow> (Inr compiler, w')
              | (Inl err, w') \<Rightarrow> (Inl (rethrow err (pathToElm processedOptions)), w')))"

text \<open>
  The expression \<^verbatim>\<open>spawn.sync\<close>: reading the property throws when the binding is
  \<^verbatim>\<open>undefined\<close> or \<^verbatim>\<open>null\<close>; an object gives its own \<^verbatim>\<open>sync\<close>, a function the
  \<^verbatim>\<open>sync\<close> of the collaborators, any other value \<^verbatim>\<open>undefined\<close>.
\<close>

definition spawn_dot_sync :: "env \<Rightarrow> thrown + jsval" where
  "spawn_dot_sync E =
     (case spawn_module E of
        JUndefined \<Rightarrow> Inl (TypeError_read ''undefined'' ''sync'')
      | JNull \<Rightarrow> Inl (TypeError_read ''null'' ''sync'')
      | JObj ps \<Rightarrow> Inr (get_prop ps ''sync'')
      | JFun f \<Rightarrow> Inr (spawn_sync E)
      | _ \<Rightarrow> Inr JUndefined)"

text \<open>
  \<^verbatim>\<open>compileSync\<close>: as \<^verbatim>\<open>compile\<close>, with \<^verbatim>\<open>spawn.sync\<close> to bind; that
  expression is an argument of \<^verbatim>\<open>prepareOptions\<close>, evaluated after
  \<^verbatim>\<open>processOptions\<close> and before the \<^verbatim>\<open>try\<close>, so what it throws is not caught.
\<close>

definition compileSync :: "env \<Rightarrow> jsval \<Rightarrow> jsobj \<Rightarrow> world \<Rightarrow> (thrown + child) \<times> world" where
  "compileSync E sources options w =
     (case processOptions E options of
        Inl e \<Rightarrow> (Inl e, w)
      | Inr processedOptions \<Rightarrow>
          (case spawn_dot_sync E of
             Inl e \<Rightarrow> (Inl e, w)
           | Inr sync \<Rightarrow>
               (let optionsWithDefaults = prepareOptions (spawn_module E) options sync
                in case runCompiler E sources optionsWithDefaults processedOptions w of
                     (Inr compiler, w') \<Rightarrow> (Inr compiler, w')
                   | (Inl err, w') \<Rightarrow> (Inl (rethrow err (pathToElm processedOptions)), w'))))"

section \<open>Capturing the output as a string\<close>

text \<open>
  \<^verbatim>\<open>getSuffix\<close>: \<^verbatim>\<open>path.extname(outputPath) || defaultSuffix\<close> for a truthy
  output path; an empty extension is falsy.
\<close>

definition getSuffix :: "env \<Rightarrow> jsval \<Rightarrow> string \<Rightarrow> thrown + string" where
  "getSuffix E outputPath defaultSuffix =
     (if truthy outputPath then
        (case path_extname E outputPath of
           Inl e \<Rightarrow> Inl e
         | Inr ext \<Rightarrow> Inr (if ext \<noteq> [] then ext else defaultSuffix))
      else Inr defaultSuffix)"

text \<open>How the promise of \<^verbatim>\<open>compileToString\<close> settles.\<close>

datatype settled = Resolved string | Rejected thrown

text \<open>\<^verbatim>\<open>output += chunk\<close>, by either stream's listener, in order of arrival.\<close>

definition collect :: "(stream \<times> string) list \<Rightarrow> string" where
  "collect cs = foldl (\<lambda>output chunk. output @ snd chunk) [] cs"

definition msg_failed :: "string \<Rightarrow> string" where
  "msg_failed output = ''Compilation failed'' @ [newline] @ output"

definition piped :: jsval where
  "piped = JObj [(''stdio'', JStr ''pipe'')]"

text \<open>
  \<^verbatim>\<open>compileToString\<close>: the value is a synchronous throw (of \<^verbatim>\<open>getSuffix\<close>) or the
  settled promise; with it come the caller's options object, which the function assigns
  to, and the effects.
\<close>

definition compileToString ::
    "env \<Rightarrow> jsval \<Rightarrow> jsobj \<Rightarrow> world \<Rightarrow> (thrown + settled) \<times> jsobj \<times> world" where
  "compileToString E sources options w =
     (case getSuffix E (get_prop options ''output'') ''.js'' of
        Inl e \<Rightarrow> (Inl e, options, w)
      | Inr suffix \<Rightarrow>
          (case temp_open E suffix of
             Inl err \<Rightarrow> (Inr (Rejected err), options, w)
           | Inr path \<Rightarrow>
               (let options' = set_prop ''processOpts'' piped (set_prop ''output'' (JStr path) options)
                in case compile E sources options' w of
                     (Inl compileError, w') \<Rightarrow> (Inr (Rejected compileError), options', w')
                   | (Inr compiler, w') \<Rightarrow>
                       (let output = collect (chunks compiler)
                        in if exitCode compiler \<noteq> Some 0 then
                             (Inr (Rejected (new_Error (msg_failed output))), options', w')
                           else
                             (case readFile E path of
                                Inl err \<Rightarrow> Inr (Rejected err)
                              | Inr data \<Rightarrow> Inr (Resolved data),
                              options',
                              if truthy (get_prop options' ''verbose'')
                              then console_log (LogText output) w' else w')))))"

definition compileToStringSync ::
    "env \<Rightarrow> jsval \<Rightarrow> jsobj \<Rightarrow> world \<Rightarrow> (thrown + string) \<times> jsobj \<times> world" where
  "compileToStringSync E sources options w =
     (case getSuffix E (get_prop options ''output'') ''.js'' of
        Inl e \<Rightarrow> (Inl e, options, w)
      | Inr suffix \<Rightarrow>
          (case temp_openSync E suffix of
             Inl e \<Rightarrow> (Inl e, options, w)
           | Inr path \<Rightarrow>
               (let options' = set_prop ''output'' (JStr path) options
                in case compileSync E sources options' w of
                     (Inl e, w') \<Rightarrow> (Inl e, options', w')
                   | (Inr compiler, w') \<Rightarrow> (readFileSync E path, options', w'))))"

section \<open>Example collaborators\<close>

text \<open>
  Concrete collaborators for evaluating the functions above: a compiler found at
  \<^verbatim>\<open>elm\<close>, every call of a process-execution function giving the run \<open>run\<close>, a
  temp file named after the suffix, and every file read giving \<open>file\<close>. No output path
  is configured in the evaluations below, so \<^verbatim>\<open>path.extname\<close> is not called in them;
  here it finds no extension.
\<close>

definition example_env :: "child \<Rightarrow> thrown + string \<Rightarrow> env" where
  "example_env run file =
     \<lparr>spawn_module = JFun ''spawn'',
      spawn_sync = JFun ''spawn.sync'',
      processOptions =
        (\<lambda>options. Inr \<lparr>pathToElm = ''elm'', processOpts = get_prop options ''processOpts''\<rparr>),
      invoke = (\<lambda>name path args opts. Inr run),
      path_extname = (\<lambda>p. Inr []),
      temp_open = (\<lambda>suffix. Inr (''/tmp/out'' @ suffix)),
      temp_openSync = (\<lambda>suffix. Inr (''/tmp/out'' @ suffix)),
      readFile = (\<lambda>p. file),
      readFileSync = (\<lambda>p. file)\<rparr>"

definition world0 :: world where
  "world0 = \<lparr>spawn_calls = [], console = []\<rparr>"

text \<open>A failed file read.\<close>

definition read_error :: thrown where
  "read_error =
     ThrowObject \<lparr>code = JStr ''EMFILE'',
                  message = JStr ''EMFILE: too many open files, open /tmp/out.js'',
                  text_of = ''Error: EMFILE: too many open files, open /tmp/out.js''\<rparr>"

text \<open>A run that prints to both streams and exits with code 1, and a run that succeeds.\<close>

definition failed_run :: child where
  "failed_run = \<lparr>chunks = [(Stdout, ''Detected problems''), (Stderr, ''PARSE ERROR'')],
                  exitCode = Some 1\<rparr>"

definition good_run :: child where
  "good_run = \<lparr>chunks = [(Stdout, ''Success!'')], exitCode = Some 0\<rparr>"

section \<open>Properties of the model\<close>

subsection \<open>Objects\<close>

lemma get_prop_Nil: "get_prop [] k = JUndefined"
  by (simp add: get_prop_def)

lemma get_prop_Cons:
  "get_prop (p # ps) k = (if fst p = k then snd p else get_prop ps k)"
  by (cases p) (simp add: get_prop_def)

lemma get_prop_absent: "k \<notin> fst ` set obj \<Longrightarrow> get_prop obj k = JUndefined"
  by (induction obj) (auto simp: get_prop_Nil get_prop_Cons)

lemma get_prop_append:
  "get_prop (xs @ ys) k = (if k \<in> fst ` set xs then get_prop xs k else get_prop ys k)"
  by (induction xs) (auto simp: get_prop_Cons)

lemma get_prop_set_prop:
  "get_prop (set_prop k v obj) k' = (if k' = k then v else get_prop obj k')"
  by (induction obj) (auto simp: get_prop_Nil get_prop_Cons)

lemma get_prop_member:
  "get_prop obj k = v \<Longrightarrow> v \<noteq> JUndefined \<Longrightarrow> (k, v) \<in> set obj"
  by (auto simp: get_prop_def split: option.splits dest: map_of_SomeD)

lemma member_get_prop:
  "distinct (map fst obj) \<Longrightarrow> (k, v) \<in> set obj \<Longrightarrow> get_prop obj k = v"
  by (simp add: get_prop_def)

lemma truthy_defined: "truthy v \<Longrightarrow> v \<noteq> JUndefined"
  by auto

lemma typeof_string: "typeof v = ''string'' \<longleftrightarrow> (\<exists>s. v = JStr s)"
  by (cases v) auto

lemma supportedOptions_list:
  "supportedOptions =
     [''spawn'', ''runtimeOptions'', ''cwd'', ''pathToElm'', ''help'', ''output'',
      ''report'', ''debug'', ''verbose'', ''processOpts'', ''docs'', ''optimize'']"
  by (simp add: supportedOptions_def lodash_keys_def defaultOptions_def)

text \<open>Where a key other than \<^verbatim>\<open>length\<close> sits does not change how lodash iterates.\<close>

lemma isArrayLike_insert:
  "k \<noteq> ''length'' \<Longrightarrow> isArrayLike (xs @ (k, v) # ys) = isArrayLike (xs @ ys)"
  by (simp add: isArrayLike_def get_prop_append get_prop_Cons)

lemma not_isArrayLike_parts:
  assumes "distinct (map fst (xs @ p # ys))" and "\<not> isArrayLike (xs @ p # ys)"
    and "fst p \<noteq> ''length''"
  shows "\<not> isArrayLike xs \<and> \<not> isArrayLike ys"
proof (cases "''length'' \<in> fst ` set xs")
  case True
  with assms(1) have "''length'' \<notin> fst ` set ys" by auto
  then have "get_prop ys ''length'' = JUndefined" by (rule get_prop_absent)
  moreover from True have "get_prop (xs @ p # ys) ''length'' = get_prop xs ''length''"
    by (simp add: get_prop_append)
  ultimately show ?thesis using assms(2) by (simp add: isArrayLike_def)
next
  case False
  then have "get_prop xs ''length'' = JUndefined" by (rule get_prop_absent)
  moreover from False assms(3) have "get_prop (xs @ p # ys) ''length'' = get_prop ys ''length''"
    by (simp add: get_prop_append get_prop_Cons)
  ultimately show ?thesis using assms(2) by (simp add: isArrayLike_def)
qed

subsection \<open>Defaults\<close>

text \<open>
  What \<^verbatim>\<open>_.defaults\<close> leaves under a key: a defined value of the destination
  stays, otherwise the first source to have the key decides.
\<close>

lemma get_prop_assign_default:
  "get_prop (assign_default obj p) k =
     (if get_prop obj k = JUndefined \<and> fst p = k then snd p else get_prop obj k)"
  by (auto simp: assign_default_def get_prop_set_prop)

lemma foldl_assign_keeps_defined:
  "get_prop obj k \<noteq> JUndefined \<Longrightarrow> get_prop (foldl assign_default obj src) k = get_prop obj k"
  by (induction src arbitrary: obj) (auto simp: get_prop_assign_default)

lemma get_prop_foldl_assign:
  "distinct (map fst src) \<Longrightarrow>
   get_prop (foldl assign_default obj src) k =
     (if get_prop obj k = JUndefined then get_prop src k else get_prop obj k)"
proof (induction src arbitrary: obj)
  case Nil
  then show ?case by (simp add: get_prop_Nil)
next
  case (Cons p ps)
  then have "fst p \<notin> fst ` set ps" by auto
  then have "get_prop ps (fst p) = JUndefined" by (rule get_prop_absent)
  with Cons show ?case
    by (auto simp: get_prop_assign_default get_prop_Cons)
qed

lemma get_prop_prepareOptions:
  assumes "distinct (map fst options)"
  shows "get_prop (prepareOptions spawn options spawnFn) k =
           (if k = ''spawn'' \<and> spawnFn \<noteq> JUndefined then spawnFn
            else if get_prop options k \<noteq> JUndefined then get_prop options k
            else get_prop (defaultOptions spawn) k)"
proof -
  have "distinct (map fst (defaultOptions spawn))" by (simp add: defaultOptions_def)
  with assms show ?thesis
    by (simp add: prepareOptions_def lodash_defaults_def get_prop_foldl_assign get_prop_Cons get_prop_Nil)
qed

lemma bound_spawn_is_kept:
  "spawnFn \<noteq> JUndefined \<Longrightarrow> get_prop (prepareOptions spawn options spawnFn) ''spawn'' = spawnFn"
  by (simp add: prepareOptions_def lodash_defaults_def foldl_assign_keeps_defined get_prop_Cons)

lemma isArrayLike_prepareOptions:
  assumes "distinct (map fst options)"
  shows "isArrayLike (prepareOptions spawn options spawnFn) = isArrayLike options"
  using assms
  by (simp add: isArrayLike_def get_prop_prepareOptions defaultOptions_def get_prop_Cons get_prop_Nil)

subsection \<open>The iteration\<close>

lemma traverse_append:
  "traverse f (xs @ ys) =
     (case traverse f xs of
        Inl e \<Rightarrow> Inl e
      | Inr as \<Rightarrow> (case traverse f ys of Inl e \<Rightarrow> Inl e | Inr bs \<Rightarrow> Inr (as @ bs)))"
  by (induction xs) (auto split: sum.splits)

lemma traverse_first_throw:
  assumes "find (\<lambda>p. \<exists>e. f p = Inl e) xs = Some q"
  shows "\<exists>e. f q = Inl e \<and> traverse f xs = Inl e"
  using assms
proof (induction xs)
  case Nil
  then show ?case by simp
next
  case (Cons x xs)
  show ?case
  proof (cases "\<exists>e. f x = Inl e")
    case True
    with Cons.prems show ?thesis by auto
  next
    case False
    then obtain y where y: "f x = Inr y" by (cases "f x") auto
    from False Cons.prems have "find (\<lambda>p. \<exists>e. f p = Inl e) xs = Some q" by simp
    from Cons.IH [OF this] y show ?thesis by auto
  qed
qed

lemma traverse_no_throw:
  assumes "\<forall>x\<in>set xs. \<exists>y. f x = Inr y"
  shows "\<exists>ys. traverse f xs = Inr ys"
  using assms by (induction xs) (auto split: sum.splits)

lemma traverse_skip:
  assumes "f p = Inr []"
  shows "(case traverse f (xs @ p # ys) of Inl e \<Rightarrow> Inl e | Inr xss \<Rightarrow> Inr (concat xss)) =
         (case traverse f (xs @ ys) of Inl e \<Rightarrow> Inl e | Inr xss \<Rightarrow> Inr (concat xss))"
  using assms by (simp add: traverse_append split: sum.splits)

text \<open>An object that is not array-like is visited key by key.\<close>

lemma compilerArgs_by_key:
  "\<not> isArrayLike options \<Longrightarrow>
   compilerArgsFromOptions options =
     (case traverse (\<lambda>p. optionArgs (snd p) (Name (fst p))) options of
        Inl e \<Rightarrow> Inl e
      | Inr xss \<Rightarrow> Inr (concat xss))"
  by (simp add: compilerArgsFromOptions_def lodash_map_def lodash_flatten_def cong: sum.case_cong)

subsection \<open>The iteratee\<close>

lemma optionArgs_falsy: "\<not> truthy v \<Longrightarrow> optionArgs v opt = Inr []"
  by (simp add: optionArgs_def)

lemma optionArgs_rejects:
  assumes "truthy v" and "k \<notin> set supportedOptions"
  shows "optionArgs v (Name k) =
           Inl (new_Error (if k = ''yes'' then msg_yes
                           else if k = ''warn'' then msg_warn
                           else if k = ''pathToMake'' then msg_pathToMake
                           else msg_unrecognized k))"
  using assms by (auto simp: optionArgs_def defaultCase_def unsupported_def supportedOptions_list)

lemma optionArgs_accepts:
  assumes "\<not> (truthy v \<and> k \<notin> set supportedOptions)"
  shows "\<exists>ts. optionArgs v (Name k) = Inr ts"
  using assms by (auto simp: optionArgs_def defaultCase_def unsupported_def)

lemma iteratee_throws_iff:
  "(\<exists>e. optionArgs (snd p) (Name (fst p)) = Inl e) \<longleftrightarrow>
   (truthy (snd p) \<and> fst p \<notin> set supportedOptions)"
  using optionArgs_rejects [of "snd p" "fst p"] optionArgs_accepts [of "snd p" "fst p"]
  by (cases "truthy (snd p) \<and> fst p \<notin> set supportedOptions") auto

lemma optionArgs_runtimeOptions:
  "optionArgs (JArr toks) (Name ''runtimeOptions'') =
     Inr ([JStr ''+RTS''] @ toks @ [JStr ''-RTS''])"
  by (simp add: optionArgs_def lodash_concat_def)

text \<open>The first key that the iteratee rejects decides what is thrown.\<close>

lemma truthy_unrecognized_throws:
  assumes "\<not> isArrayLike options"
    and "\<exists>p\<in>set options. truthy (snd p) \<and> fst p \<notin> set supportedOptions"
  shows "\<exists>k v. find (\<lambda>p. truthy (snd p) \<and> fst p \<notin> set supportedOptions) options = Some (k, v) \<and>
           compilerArgsFromOptions options =
             Inl (new_Error (if k = ''yes'' then msg_yes
                             else if k = ''warn'' then msg_warn
                             else if k = ''pathToMake'' then msg_pathToMake
                             else msg_unrecognized k))"
proof -
  let ?bad = "\<lambda>p. truthy (snd p) \<and> fst p \<notin> set supportedOptions"
  let ?f = "\<lambda>p. optionArgs (snd p) (Name (fst p))"
  from assms(2) obtain q where q: "find ?bad options = Some q"
    by (cases "find ?bad options") (auto simp: find_None_iff)
  then have bad: "?bad q" by (auto simp: find_Some_iff)
  have "(\<lambda>p. \<exists>e. ?f p = Inl e) = ?bad"
    by (rule ext) (rule iteratee_throws_iff)
  with q have "find (\<lambda>p. \<exists>e. ?f p = Inl e) options = Some q" by simp
  from traverse_first_throw [OF this]
  obtain e where e: "?f q = Inl e" "traverse ?f options = Inl e" by auto
  from bad have "?f q = Inl (new_Error (if fst q = ''yes'' then msg_yes
                             else if fst q = ''warn'' then msg_warn
                             else if fst q = ''pathToMake'' then msg_pathToMake
                             else msg_unrecognized (fst q)))"
    using optionArgs_rejects [of "snd q" "fst q"] by simp
  with e have "compilerArgsFromOptions options = Inl (new_Error (if fst q = ''yes'' then msg_yes
                             else if fst q = ''warn'' then msg_warn
                             else if fst q = ''pathToMake'' then msg_pathToMake
                             else msg_unrecognized (fst q)))"
    using assms(1) by (simp add: compilerArgs_by_key)
  with q show ?thesis by (cases q) auto
qed

text \<open>An array-like object is visited at its indices: the key \<^verbatim>\<open>yes\<close> is not seen.\<close>

lemma array_like_visited_by_index:
  "compilerArgsFromOptions [(''length'', JNum 2), (''1'', JStr ''x''), (''yes'', JBool True)] =
     Inl (new_Error (msg_unrecognized ''1''))"
  by code_simp

subsection \<open>Throwing before the spawn\<close>

lemma prepared_keeps_rejected_key:
  assumes "distinct (map fst options)"
    and "(k, v) \<in> set options" and "truthy v" and "k \<notin> set supportedOptions"
  shows "(k, v) \<in> set (prepareOptions spawn options spawnFn)"
proof -
  from assms(1,2) have "get_prop options k = v" by (rule member_get_prop)
  moreover from assms(4) have "k \<noteq> ''spawn''" by (auto simp: supportedOptions_list)
  ultimately have "get_prop (prepareOptions spawn options spawnFn) k = v"
    using assms(1,3) by (auto simp: get_prop_prepareOptions)
  with assms(3) show ?thesis by (auto intro: get_prop_member)
qed

lemma prepareSources_invalid:
  "(\<forall>xs. sources \<noteq> JArr xs) \<Longrightarrow> (\<forall>s. sources \<noteq> JStr s) \<Longrightarrow>
   prepareSources sources = Inl (ThrowString msg_sources)"
  by (cases sources) auto

lemma runCompiler_build_throws:
  assumes "prepareProcessArgs sources options = Inl e"
  shows "\<exists>t. runCompiler E sources options processedOptions w = (Inl t, w)"
  using assms by (simp add: runCompiler_def)

lemma prepared_build_throws:
  assumes "distinct (map fst options)" and "\<not> isArrayLike options"
    and "(\<exists>p\<in>set options. truthy (snd p) \<and> fst p \<notin> set supportedOptions) \<or>
         ((\<forall>xs. sources \<noteq> JArr xs) \<and> (\<forall>s. sources \<noteq> JStr s))"
  shows "\<exists>e. prepareProcessArgs sources (prepareOptions spawn options spawnFn) = Inl e"
proof (cases "(\<forall>xs. sources \<noteq> JArr xs) \<and> (\<forall>s. sources \<noteq> JStr s)")
  case True
  then show ?thesis by (simp add: prepareProcessArgs_def prepareSources_invalid)
next
  case False
  let ?prepared = "prepareOptions spawn options spawnFn"
  from False assms(3) obtain k v where
    kv: "(k, v) \<in> set options" "truthy v" "k \<notin> set supportedOptions"
    by auto
  from prepared_keeps_rejected_key [OF assms(1) kv]
  have "\<exists>p\<in>set ?prepared. truthy (snd p) \<and> fst p \<notin> set supportedOptions"
    using kv by force
  moreover from assms(1,2) have "\<not> isArrayLike ?prepared"
    by (simp add: isArrayLike_prepareOptions)
  ultimately obtain e where "compilerArgsFromOptions ?prepared = Inl e"
    using truthy_unrecognized_throws by blast
  then show ?thesis by (auto simp: prepareProcessArgs_def split: sum.splits)
qed

text \<open>
  With a configuration visited key by key, an invalid sources argument or a truthy key
  outside the recognized set makes \<^verbatim>\<open>compile\<close> and \<^verbatim>\<open>compileSync\<close> throw with no
  effect: no process-execution function has been called.
\<close>

lemma compile_rejects_before_spawn:
  assumes "distinct (map fst options)" and "\<not> isArrayLike options"
    and "(\<exists>p\<in>set options. truthy (snd p) \<and> fst p \<notin> set supportedOptions) \<or>
         ((\<forall>xs. sources \<noteq> JArr xs) \<and> (\<forall>s. sources \<noteq> JStr s))"
  shows "(\<exists>t. compile E sources options w = (Inl t, w)) \<and>
         (\<exists>t. compileSync E sources options w = (Inl t, w))"
proof
  show "\<exists>t. compile E sources options w = (Inl t, w)"
  proof (cases "processOptions E options")
    case (Inl e)
    then show ?thesis by (simp add: compile_def)
  next
    case (Inr po)
    from prepared_build_throws [OF assms] runCompiler_build_throws
    obtain t where "runCompiler E sources
        (prepareOptions (spawn_module E) options (spawn_module E)) po w = (Inl t, w)"
      by blast
    with Inr show ?thesis by (simp add: compile_def)
  qed
next
  show "\<exists>t. compileSync E sources options w = (Inl t, w)"
  proof (cases "processOptions E options")
    case (Inl e)
    then show ?thesis by (simp add: compileSync_def)
  next
    case po: (Inr po)
    show ?thesis
    proof (cases "spawn_dot_sync E")
      case (Inl e)
      with po show ?thesis by (simp add: compileSync_def)
    next
      case (Inr sync)
      from prepared_build_throws [OF assms] runCompiler_build_throws
      obtain t where "runCompiler E sources
          (prepareOptions (spawn_module E) options sync) po w = (Inl t, w)"
        by blast
      with po Inr show ?thesis by (simp add: compileSync_def)
    qed
  qed
qed

text \<open>
  With the \<^verbatim>\<open>spawn\<close> binding \<^verbatim>\<open>undefined\<close> or \<^verbatim>\<open>null\<close>, \<^verbatim>\<open>compileSync\<close>
  throws what reading \<^verbatim>\<open>spawn.sync\<close> throws, uncaught and with no effect; it does
  not get to \<^verbatim>\<open>runCompiler\<close>.
\<close>

lemma compileSync_nullish_binding:
  assumes "spawn_module E = JUndefined \<or> spawn_module E = JNull"
    and "processOptions E options = Inr po"
  shows "\<exists>what. compileSync E sources options w = (Inl (TypeError_read what ''sync''), w)"
  using assms by (auto simp: compileSync_def spawn_dot_sync_def)

text \<open>
  The configuration of the repository's test for an unrecognized argument: \<^verbatim>\<open>compile\<close>
  throws, and the message of the new \<^verbatim>\<open>Error\<close> is the iteratee's message in quotes.
\<close>

lemma test_configuration_throws:
  "fst (compile (example_env good_run (Inr [])) (JStr ''Parent.elm'')
     [(''foo'', JStr ''bar''), (''output'', JStr ''/dev/null''), (''verbose'', JBool True),
      (''cwd'', JStr ''fixtures'')] world0) =
   Inl (new_Error (JSON_stringify (msg_unrecognized ''foo'')))"
  by code_simp


lemma collect_concat: "collect cs = concat (map snd cs)"
proof -
  have "foldl (\<lambda>output chunk. output @ snd chunk) acc cs = acc @ concat (map snd cs)" for acc
    by (induction cs arbitrary: acc) auto
  then show ?thesis by (simp add: collect_def)
qed

subsection \<open>The temp file and the caller's object\<close>

lemma compileToString_no_temp:
  assumes "getSuffix E (get_prop options ''output'') ''.js'' = Inl e \<or>
           (\<exists>suffix e. getSuffix E (get_prop options ''output'') ''.js'' = Inr suffix \<and>
                       temp_open E suffix = Inl e)"
  shows "snd (compileToString E sources options w) = (options, w)"
  using assms by (auto simp: compileToString_def)

lemma compileToString_with_temp:
  assumes "getSuffix E (get_prop options ''output'') ''.js'' = Inr suffix"
    and "temp_open E suffix = Inr path"
  shows "fst (snd (compileToString E sources options w)) =
           set_prop ''processOpts'' piped (set_prop ''output'' (JStr path) options) \<and>
         spawn_calls (snd (snd (compileToString E sources options w))) =
           spawn_calls (snd (compile E sources
             (set_prop ''processOpts'' piped (set_prop ''output'' (JStr path) options)) w))"
proof (cases "compile E sources
             (set_prop ''processOpts'' piped (set_prop ''output'' (JStr path) options)) w")
  case (Pair r w')
  with assms show ?thesis
    by (cases r) (simp_all add: compileToString_def Let_def console_log_def)
qed

lemma compileToStringSync_no_temp:
  assumes "getSuffix E (get_prop options ''output'') ''.js'' = Inl e \<or>
           (\<exists>suffix e. getSuffix E (get_prop options ''output'') ''.js'' = Inr suffix \<and>
                       temp_openSync E suffix = Inl e)"
  shows "snd (compileToStringSync E sources options w) = (options, w)"
  using assms by (auto simp: compileToStringSync_def)

lemma compileToStringSync_with_temp:
  assumes "getSuffix E (get_prop options ''output'') ''.js'' = Inr suffix"
    and "temp_openSync E suffix = Inr path"
  shows "fst (snd (compileToStringSync E sources options w)) =
           set_prop ''output'' (JStr path) options \<and>
         spawn_calls (snd (snd (compileToStringSync E sources options w))) =
           spawn_calls (snd (compileSync E sources (set_prop ''output'' (JStr path) options) w))"
proof (cases "compileSync E sources (set_prop ''output'' (JStr path) options) w")
  case (Pair r w')
  with assms show ?thesis
    by (cases r) (simp_all add: compileToStringSync_def Let_def)
qed

text \<open>
  Whatever run \<^verbatim>\<open>compileSync\<close> returns, \<^verbatim>\<open>compileToStringSync\<close> answers with the
  read of the temp file.
\<close>

lemma compileToStringSync_returns_file:
  assumes "getSuffix E (get_prop options ''output'') ''.js'' = Inr suffix"
    and "temp_openSync E suffix = Inr path"
    and "compileSync E sources (set_prop ''output'' (JStr path) options) w = (Inr compiler, w')"
  shows "fst (compileToStringSync E sources options w) = readFileSync E path"
  using assms by (simp add: compileToStringSync_def Let_def)

lemma temp_cases:
  fixes g :: "thrown + string" and t :: "string \<Rightarrow> thrown + string"
  obtains (no_suffix) e where "g = Inl e"
  | (no_temp) suffix e where "g = Inr suffix" "t suffix = Inl e"
  | (temp) suffix path where "g = Inr suffix" "t suffix = Inr path"
proof (cases g)
  case (Inl e)
  then show ?thesis by (rule no_suffix)
next
  case (Inr suffix)
  then show ?thesis by (cases "t suffix") (auto intro: no_temp temp)
qed

section \<open>The argument list\<close>

text \<open>
  Claim C1. For a sources argument that is a single path string or a list of paths, and
  any configuration for which the flags can be built, the argument list of
  \<^verbatim>\<open>prepareProcessArgs\<close> is the token \<^verbatim>\<open>make\<close>, then the sources (a lone string as
  a one-element list, a list as it is, in its order), then the tokens built from the
  configuration; when building the flags throws, \<^verbatim>\<open>prepareProcessArgs\<close> throws the
  same value.
\<close>

theorem prepareProcessArgs_order:
  "prepareProcessArgs (JStr s) options =
     (case compilerArgsFromOptions options of
        Inl e \<Rightarrow> Inl e
      | Inr flags \<Rightarrow> Inr (JStr ''make'' # JStr s # flags)) \<and>
   prepareProcessArgs (JArr xs) options =
     (case compilerArgsFromOptions options of
        Inl e \<Rightarrow> Inl e
      | Inr flags \<Rightarrow> Inr (JStr ''make'' # xs @ flags))"
  by (simp add: prepareProcessArgs_def split: sum.splits)

text \<open>
  The theorem at the configuration of the repository's test, and at a list of two
  sources.
\<close>

theorem prepareProcessArgs_order_witness:
  "prepareProcessArgs (JStr ''a.elm'')
     [(''verbose'', JBool True), (''cwd'', JStr ''fixtures''),
      (''runtimeOptions'', JArr [JStr ''-A128M'', JStr ''-H128M'', JStr ''-n8m''])] =
     Inr [JStr ''make'', JStr ''a.elm'', JStr ''+RTS'', JStr ''-A128M'', JStr ''-H128M'',
          JStr ''-n8m'', JStr ''-RTS''] \<and>
   prepareProcessArgs (JArr [JStr ''A.elm'', JStr ''B.elm''])
     [(''verbose'', JBool True), (''cwd'', JStr ''fixtures''),
      (''runtimeOptions'', JArr [JStr ''-A128M'', JStr ''-H128M'', JStr ''-n8m''])] =
     Inr [JStr ''make'', JStr ''A.elm'', JStr ''B.elm'', JStr ''+RTS'', JStr ''-A128M'',
          JStr ''-H128M'', JStr ''-n8m'', JStr ''-RTS'']"
proof -
  have flags:
    "compilerArgsFromOptions
       [(''verbose'', JBool True), (''cwd'', JStr ''fixtures''),
        (''runtimeOptions'', JArr [JStr ''-A128M'', JStr ''-H128M'', JStr ''-n8m''])] =
     Inr [JStr ''+RTS'', JStr ''-A128M'', JStr ''-H128M'', JStr ''-n8m'', JStr ''-RTS'']"
    by code_simp
  show ?thesis
    using prepareProcessArgs_order
      [of "''a.elm''"
          "[(''verbose'', JBool True), (''cwd'', JStr ''fixtures''),
            (''runtimeOptions'', JArr [JStr ''-A128M'', JStr ''-H128M'', JStr ''-n8m''])]"]
      prepareProcessArgs_order
      [of _
          "[(''verbose'', JBool True), (''cwd'', JStr ''fixtures''),
            (''runtimeOptions'', JArr [JStr ''-A128M'', JStr ''-H128M'', JStr ''-n8m''])]"
          "[JStr ''A.elm'', JStr ''B.elm'']"]
    by (simp only: flags sum.case append.simps)
qed

text \<open>
  Claim C2, as the code has it. When the configuration is visited key by key (it has no
  numeric \<^verbatim>\<open>length\<close>), has each key once, and binds \<^verbatim>\<open>runtimeOptions\<close> to a list
  of tokens, a built argument list is \<^verbatim>\<open>make\<close>, the sources, the tokens of the keys
  enumerated before \<^verbatim>\<open>runtimeOptions\<close>, then \<^verbatim>\<open>+RTS\<close>, the runtime tokens in their
  order and \<^verbatim>\<open>-RTS\<close>, then the tokens of the keys enumerated after it: the block stands
  where the key stands, not after all other flags.
\<close>

theorem runtimeOptions_block_in_key_order:
  assumes "options = before @ (''runtimeOptions'', JArr toks) # after"
    and "distinct (map fst options)"
    and "\<not> isArrayLike options"
    and "prepareProcessArgs sources options = Inr args"
  shows "\<exists>srcs fb fa.
           prepareSources sources = Inr srcs \<and>
           compilerArgsFromOptions before = Inr fb \<and>
           compilerArgsFromOptions after = Inr fa \<and>
           args = JStr ''make'' # srcs @ fb @ [JStr ''+RTS''] @ toks @ [JStr ''-RTS''] @ fa"
proof -
  let ?f = "\<lambda>p. optionArgs (snd p) (Name (fst p))"
  from assms(1-3) have parts: "\<not> isArrayLike before \<and> \<not> isArrayLike after"
    using not_isArrayLike_parts [of before "(''runtimeOptions'', JArr toks)" after] by simp
  from assms(4) obtain srcs flags where
    srcs: "prepareSources sources = Inr srcs" and
    flags: "compilerArgsFromOptions options = Inr flags" and
    args: "args = JStr ''make'' # srcs @ flags"
    by (auto simp: prepareProcessArgs_def split: sum.splits)
  from flags assms(3) obtain xss where
    xss: "traverse ?f options = Inr xss" and fl: "flags = concat xss"
    by (auto simp: compilerArgs_by_key split: sum.splits)
  from xss obtain bs as where
    bs: "traverse ?f before = Inr bs" and
    as: "traverse ?f after = Inr as" and
    xs: "xss = bs @ ([JStr ''+RTS''] @ toks @ [JStr ''-RTS'']) # as"
    unfolding assms(1) traverse_append
    by (auto simp: optionArgs_runtimeOptions split: sum.splits)
  from bs parts have "compilerArgsFromOptions before = Inr (concat bs)"
    by (simp add: compilerArgs_by_key)
  moreover from as parts have "compilerArgsFromOptions after = Inr (concat as)"
    by (simp add: compilerArgs_by_key)
  moreover from args fl xs
  have "args = JStr ''make'' # srcs @ concat bs @ [JStr ''+RTS''] @ toks @ [JStr ''-RTS''] @ concat as"
    by simp
  ultimately show ?thesis using srcs by blast
qed

text \<open>
  The theorem at \<^verbatim>\<open>{debug: true, runtimeOptions: ["-A128M", "-n8m"], output: "out.js"}\<close>.
\<close>

theorem runtimeOptions_block_in_key_order_witness:
  "distinct (map fst [(''debug'', JBool True),
                      (''runtimeOptions'', JArr [JStr ''-A128M'', JStr ''-n8m'']),
                      (''output'', JStr ''out.js'')]) \<and>
   \<not> isArrayLike [(''debug'', JBool True),
                  (''runtimeOptions'', JArr [JStr ''-A128M'', JStr ''-n8m'']),
                  (''output'', JStr ''out.js'')] \<and>
   prepareProcessArgs (JStr ''a.elm'')
     [(''debug'', JBool True),
      (''runtimeOptions'', JArr [JStr ''-A128M'', JStr ''-n8m'']),
      (''output'', JStr ''out.js'')] =
     Inr [JStr ''make'', JStr ''a.elm'', JStr ''--debug'', JStr ''+RTS'', JStr ''-A128M'',
          JStr ''-n8m'', JStr ''-RTS'', JStr ''--output'', JStr ''out.js''] \<and>
   (\<exists>srcs fb fa.
      prepareSources (JStr ''a.elm'') = Inr srcs \<and>
      compilerArgsFromOptions [(''debug'', JBool True)] = Inr fb \<and>
      compilerArgsFromOptions [(''output'', JStr ''out.js'')] = Inr fa \<and>
      [JStr ''make'', JStr ''a.elm'', JStr ''--debug'', JStr ''+RTS'', JStr ''-A128M'',
       JStr ''-n8m'', JStr ''-RTS'', JStr ''--output'', JStr ''out.js''] =
      JStr ''make'' # srcs @ fb @ [JStr ''+RTS''] @ [JStr ''-A128M'', JStr ''-n8m''] @
        [JStr ''-RTS''] @ fa)"
proof -
  let ?options = "[(''debug'', JBool True),
                   (''runtimeOptions'', JArr [JStr ''-A128M'', JStr ''-n8m'']),
                   (''output'', JStr ''out.js'')]"
  have split: "?options = [(''debug'', JBool True)] @
      (''runtimeOptions'', JArr [JStr ''-A128M'', JStr ''-n8m'']) # [(''output'', JStr ''out.js'')]"
    by simp
  have keys: "distinct (map fst ?options)" by simp
  have plain: "\<not> isArrayLike ?options" by (simp add: isArrayLike_def get_prop_def)
  have built: "prepareProcessArgs (JStr ''a.elm'') ?options =
     Inr [JStr ''make'', JStr ''a.elm'', JStr ''--debug'', JStr ''+RTS'', JStr ''-A128M'',
          JStr ''-n8m'', JStr ''-RTS'', JStr ''--output'', JStr ''out.js'']"
    by code_simp
  from runtimeOptions_block_in_key_order [OF split keys plain built] keys plain built
  show ?thesis by blast
qed

text \<open>
  Claim C2 as stated fails: with \<^verbatim>\<open>{runtimeOptions: ["-A128M"], output: "out.js"}\<close>,
  prepared by \<^verbatim>\<open>prepareOptions\<close>, the tokens of \<^verbatim>\<open>output\<close> follow the
  \<^verbatim>\<open>-RTS\<close> token.
\<close>

theorem runtimeOptions_block_not_last:
  "prepareProcessArgs (JStr ''a.elm'')
     (prepareOptions (JFun ''spawn'')
        [(''runtimeOptions'', JArr [JStr ''-A128M'']), (''output'', JStr ''out.js'')]
        (JFun ''spawn'')) =
     Inr [JStr ''make'', JStr ''a.elm'', JStr ''+RTS'', JStr ''-A128M'', JStr ''-RTS'',
          JStr ''--output'', JStr ''out.js'']"
  by code_simp

text \<open>
  Claim C3, as the code has it. When the configuration is visited key by key (it has no
  numeric \<^verbatim>\<open>length\<close>) and some key outside the recognized set is bound to a truthy
  value, building the flags throws, and the error is that of the first such key in
  enumeration order: the message of its own for \<^verbatim>\<open>yes\<close>, for \<^verbatim>\<open>warn\<close> and for
  \<^verbatim>\<open>pathToMake\<close>, and the unrecognized-option message ending in the key for any other.
\<close>

theorem unrecognized_truthy_key_rejected:
  assumes "\<not> isArrayLike options"
    and "\<exists>p\<in>set options. truthy (snd p) \<and> fst p \<notin> set supportedOptions"
  shows "\<exists>k v. find (\<lambda>p. truthy (snd p) \<and> fst p \<notin> set supportedOptions) options = Some (k, v) \<and>
           compilerArgsFromOptions options =
             Inl (new_Error (if k = ''yes'' then msg_yes
                             else if k = ''warn'' then msg_warn
                             else if k = ''pathToMake'' then msg_pathToMake
                             else msg_unrecognized k))"
  using assms by (rule truthy_unrecognized_throws)

text \<open>
  The theorem at \<^verbatim>\<open>{verbose: true, foo: "bar", yes: true}\<close>: the error names
  \<^verbatim>\<open>foo\<close>, the first of the two rejected keys.
\<close>

theorem unrecognized_truthy_key_rejected_witness:
  "\<not> isArrayLike [(''verbose'', JBool True), (''foo'', JStr ''bar''), (''yes'', JBool True)] \<and>
   truthy (JStr ''bar'') \<and> ''foo'' \<notin> set supportedOptions \<and>
   compilerArgsFromOptions
     [(''verbose'', JBool True), (''foo'', JStr ''bar''), (''yes'', JBool True)] =
     Inl (new_Error (msg_unrecognized ''foo''))"
proof -
  let ?options = "[(''verbose'', JBool True), (''foo'', JStr ''bar''), (''yes'', JBool True)]"
  let ?bad = "\<lambda>p. truthy (snd p) \<and> fst p \<notin> set supportedOptions"
  have plain: "\<not> isArrayLike ?options" by (simp add: isArrayLike_def get_prop_def)
  have foo: "truthy (JStr ''bar'') \<and> ''foo'' \<notin> set supportedOptions"
    by (simp add: supportedOptions_list)
  then have some: "\<exists>p\<in>set ?options. truthy (snd p) \<and> fst p \<notin> set supportedOptions" by simp
  have first: "find ?bad ?options = Some (''foo'', JStr ''bar'')"
    by (simp add: supportedOptions_list)
  from unrecognized_truthy_key_rejected [OF plain some] first
  have "compilerArgsFromOptions ?options = Inl (new_Error (msg_unrecognized ''foo''))"
    by auto
  with plain foo show ?thesis by simp
qed

text \<open>
  Claim C3 as stated fails: the key \<^verbatim>\<open>foo\<close> is outside the recognized set, and with
  \<^verbatim>\<open>{foo: false}\<close> nothing is thrown; and with \<^verbatim>\<open>{yes: true, foo: "bar"}\<close> the
  error thrown is the one of \<^verbatim>\<open>yes\<close>, and does not name \<^verbatim>\<open>foo\<close>.
\<close>

theorem unrecognized_falsy_key_accepted:
  "''foo'' \<notin> set supportedOptions \<and>
   compilerArgsFromOptions [(''foo'', JBool False)] = Inr [] \<and>
   compilerArgsFromOptions [(''yes'', JBool True), (''foo'', JStr ''bar'')] =
     Inl (new_Error msg_yes) \<and>
   new_Error msg_yes \<noteq> new_Error (msg_unrecognized ''foo'')"
proof -
  have "''foo'' \<notin> set supportedOptions" by (simp add: supportedOptions_list)
  moreover have "compilerArgsFromOptions [(''foo'', JBool False)] = Inr []" by code_simp
  moreover have "compilerArgsFromOptions [(''yes'', JBool True), (''foo'', JStr ''bar'')] =
     Inl (new_Error msg_yes)" by code_simp
  moreover have "new_Error msg_yes \<noteq> new_Error (msg_unrecognized ''foo'')"
    by (simp add: new_Error_def msg_yes_def msg_unrecognized_def)
  ultimately show ?thesis by simp
qed

text \<open>
  Claim C9. A falsy value gives no error and no tokens, whatever its key: the iteratee
  returns the empty list for it; in a configuration visited key by key, a key other than
  \<^verbatim>\<open>length\<close> that is bound to a falsy value can be taken out without changing what
  is built or thrown; and a configuration whose keys outside the recognized set are all
  bound to falsy values builds without an error.
\<close>

theorem falsy_option_is_skipped:
  assumes "\<not> truthy v"
  shows "optionArgs v opt = Inr [] \<and>
         (k \<noteq> ''length'' \<longrightarrow> \<not> isArrayLike (xs @ ys) \<longrightarrow>
            compilerArgsFromOptions (xs @ (k, v) # ys) = compilerArgsFromOptions (xs @ ys)) \<and>
         ((\<forall>p\<in>set options. fst p \<notin> set supportedOptions \<longrightarrow> \<not> truthy (snd p)) \<longrightarrow>
            (\<exists>args. compilerArgsFromOptions options = Inr args))"
proof (intro conjI impI)
  show "optionArgs v opt = Inr []" using assms by (rule optionArgs_falsy)
next
  assume k: "k \<noteq> ''length''" and nal: "\<not> isArrayLike (xs @ ys)"
  then have nal': "\<not> isArrayLike (xs @ (k, v) # ys)" by (simp add: isArrayLike_insert)
  have "optionArgs (snd (k, v)) (Name (fst (k, v))) = Inr []"
    using assms by (simp add: optionArgs_falsy)
  then show "compilerArgsFromOptions (xs @ (k, v) # ys) = compilerArgsFromOptions (xs @ ys)"
    unfolding compilerArgs_by_key [OF nal] compilerArgs_by_key [OF nal']
    by (rule traverse_skip)
next
  assume all: "\<forall>p\<in>set options. fst p \<notin> set supportedOptions \<longrightarrow> \<not> truthy (snd p)"
  show "\<exists>args. compilerArgsFromOptions options = Inr args"
  proof (cases "isArrayLike options")
    case True
    then obtain n where n: "get_prop options ''length'' = JNum n"
      by (auto simp: isArrayLike_def split: jsval.splits)
    then have "(''length'', JNum n) \<in> set options"
      by (auto simp: get_prop_def split: option.splits dest: map_of_SomeD)
    with all have "n = 0" by (auto simp: supportedOptions_list)
    with True n show ?thesis
      by (simp add: compilerArgsFromOptions_def lodash_map_def)
  next
    case False
    have "\<forall>p\<in>set options. \<exists>ts. optionArgs (snd p) (Name (fst p)) = Inr ts"
      using all optionArgs_accepts by blast
    from traverse_no_throw [OF this] False show ?thesis
      by (auto simp: compilerArgs_by_key)
  qed
qed

text \<open>
  The theorem at the value \<^verbatim>\<open>false\<close>: bound to \<^verbatim>\<open>yes\<close> it yields nothing,
  \<^verbatim>\<open>{debug: true, yes: false}\<close> builds what \<^verbatim>\<open>{debug: true}\<close> builds, and
  \<^verbatim>\<open>{yes: false, foo: 0}\<close> builds without an error.
\<close>

theorem falsy_option_is_skipped_witness:
  "\<not> truthy (JBool False) \<and>
   optionArgs (JBool False) (Name ''yes'') = Inr [] \<and>
   compilerArgsFromOptions [(''debug'', JBool True), (''yes'', JBool False)] =
     compilerArgsFromOptions [(''debug'', JBool True)] \<and>
   compilerArgsFromOptions [(''debug'', JBool True)] = Inr [JStr ''--debug''] \<and>
   (\<exists>args. compilerArgsFromOptions [(''yes'', JBool False), (''foo'', JNum 0)] = Inr args)"
proof -
  have falsy: "\<not> truthy (JBool False)" by simp
  have plain: "\<not> isArrayLike ([(''debug'', JBool True)] @ [])"
    by (simp add: isArrayLike_def get_prop_def)
  have all: "\<forall>p\<in>set [(''yes'', JBool False), (''foo'', JNum 0)].
               fst p \<notin> set supportedOptions \<longrightarrow> \<not> truthy (snd p)"
    by simp
  have debug: "compilerArgsFromOptions [(''debug'', JBool True)] = Inr [JStr ''--debug'']"
    by code_simp
  from falsy_option_is_skipped
         [OF falsy, of "Name ''yes''" "''yes''" "[(''debug'', JBool True)]" "[]"
            "[(''yes'', JBool False), (''foo'', JNum 0)]"]
       plain all debug falsy
  show ?thesis by simp
qed

section \<open>The error classifier\<close>

text \<open>
  Claim C6. For every error object and compiler path the classifier returns a text and
  throws nothing. A code \<^verbatim>\<open>ENOENT\<close> gives the message that the compiler at the path
  could not be found, asking whether it is installed; a code \<^verbatim>\<open>EACCES\<close> the message
  that it did not have permission to run; any other string code the "Error attempting to
  run" message with the path and the text of the error; no string code and a string
  message the \<^verbatim>\<open>JSON.stringify\<close> of the message; anything else the generic "Exception
  thrown" message with the path.
\<close>

theorem compilerErrorToString_cases:
  "(\<exists>s. compilerErrorToString (ThrowObject err) p = Inr s) \<and>
   (code err = JStr ''ENOENT'' \<longrightarrow>
      compilerErrorToString (ThrowObject err) p =
        Inr (''Could not find Elm compiler '' @ [dquote] @ p @ [dquote] @ ''. Is it installed?'')) \<and>
   (code err = JStr ''EACCES'' \<longrightarrow>
      compilerErrorToString (ThrowObject err) p =
        Inr (''Elm compiler '' @ [dquote] @ p @ [dquote] @
             '' did not have permission to run. Do you need to give it executable permissions?'')) \<and>
   (typeof (code err) = ''string'' \<and> code err \<noteq> JStr ''ENOENT'' \<and> code err \<noteq> JStr ''EACCES'' \<longrightarrow>
      compilerErrorToString (ThrowObject err) p =
        Inr (''Error attempting to run Elm compiler '' @ [dquote] @ p @ [dquote] @ '':'' @
             [newline] @ text_of err)) \<and>
   (\<forall>m. typeof (code err) \<noteq> ''string'' \<and> message err = JStr m \<longrightarrow>
      compilerErrorToString (ThrowObject err) p = Inr (JSON_stringify m)) \<and>
   (typeof (code err) \<noteq> ''string'' \<and> typeof (message err) \<noteq> ''string'' \<longrightarrow>
      compilerErrorToString (ThrowObject err) p =
        Inr (''Exception thrown when attempting to run Elm compiler '' @ JSON_stringify p))"
  by (cases "code err"; cases "message err")
     (simp_all add: msg_ENOENT_def msg_EACCES_def msg_attempt_def msg_exception_def)

text \<open>The theorem at one error object for each of the five cases, with the path \<^verbatim>\<open>elm\<close>.\<close>

theorem compilerErrorToString_cases_witness:
  "compilerErrorToString
     (ThrowObject \<lparr>code = JStr ''ENOENT'', message = JStr ''spawn elm ENOENT'',
                   text_of = ''Error: spawn elm ENOENT''\<rparr>) ''elm'' =
     Inr (''Could not find Elm compiler '' @ [dquote] @ ''elm'' @ [dquote] @ ''. Is it installed?'') \<and>
   compilerErrorToString
     (ThrowObject \<lparr>code = JStr ''EACCES'', message = JStr ''spawn elm EACCES'',
                   text_of = ''Error: spawn elm EACCES''\<rparr>) ''elm'' =
     Inr (''Elm compiler '' @ [dquote] @ ''elm'' @ [dquote] @
          '' did not have permission to run. Do you need to give it executable permissions?'') \<and>
   compilerErrorToString
     (ThrowObject \<lparr>code = JStr ''EPERM'', message = JStr ''spawn EPERM'',
                   text_of = ''Error: spawn EPERM''\<rparr>) ''elm'' =
     Inr (''Error attempting to run Elm compiler '' @ [dquote] @ ''elm'' @ [dquote] @ '':'' @
          [newline] @ ''Error: spawn EPERM'') \<and>
   compilerErrorToString
     (ThrowObject \<lparr>code = JUndefined, message = JStr ''boom'', text_of = ''Error: boom''\<rparr>) ''elm'' =
     Inr ([dquote] @ ''boom'' @ [dquote]) \<and>
   compilerErrorToString
     (ThrowObject \<lparr>code = JNum 1, message = JUndefined, text_of = ''[object Object]''\<rparr>) ''elm'' =
     Inr (''Exception thrown when attempting to run Elm compiler '' @ [dquote] @ ''elm'' @ [dquote])"
proof -
  have boom: "JSON_stringify ''boom'' = [dquote] @ ''boom'' @ [dquote]"
    by (simp add: JSON_stringify_def json_escape_def dquote_def backslash_def)
  have elm: "JSON_stringify ''elm'' = [dquote] @ ''elm'' @ [dquote]"
    by (simp add: JSON_stringify_def json_escape_def dquote_def backslash_def)
  show ?thesis
    using
      compilerErrorToString_cases
        [of "\<lparr>code = JStr ''ENOENT'', message = JStr ''spawn elm ENOENT'',
              text_of = ''Error: spawn elm ENOENT''\<rparr>" "''elm''"]
      compilerErrorToString_cases
        [of "\<lparr>code = JStr ''EACCES'', message = JStr ''spawn elm EACCES'',
              text_of = ''Error: spawn elm EACCES''\<rparr>" "''elm''"]
      compilerErrorToString_cases
        [of "\<lparr>code = JStr ''EPERM'', message = JStr ''spawn EPERM'',
              text_of = ''Error: spawn EPERM''\<rparr>" "''elm''"]
      compilerErrorToString_cases
        [of "\<lparr>code = JUndefined, message = JStr ''boom'', text_of = ''Error: boom''\<rparr>" "''elm''"]
      compilerErrorToString_cases
        [of "\<lparr>code = JNum 1, message = JUndefined, text_of = ''[object Object]''\<rparr>" "''elm''"]
      boom elm
    by (simp del: compilerErrorToString.simps)
qed

section \<open>Invoking the compiler\<close>

text \<open>
  Claim C7, evaluated at the configuration of the repository's test for an unrecognized
  argument with one more key,
  \<^verbatim>\<open>{foo: "bar", output: "/dev/null", verbose: true, cwd: "fixtures", length: 0}\<close>. The
  key \<^verbatim>\<open>foo\<close> is outside the recognized set and bound to a truthy value, yet
  \<^verbatim>\<open>compile\<close> and \<^verbatim>\<open>compileSync\<close> do not throw: the prepared options have a
  numeric \<^verbatim>\<open>length\<close>, \<^verbatim>\<open>_.map\<close> visits them by index and inspects no key, and
  the process-execution function is called with \<^verbatim>\<open>make Parent.elm\<close>.
\<close>

theorem array_like_configuration_reaches_spawn:
  "truthy (JStr ''bar'') \<and> ''foo'' \<notin> set supportedOptions \<and>
   compile (example_env good_run (Inr [])) (JStr ''Parent.elm'')
     [(''foo'', JStr ''bar''), (''output'', JStr ''/dev/null''), (''verbose'', JBool True),
      (''cwd'', JStr ''fixtures''), (''length'', JNum 0)] world0 =
     (Inr good_run,
      \<lparr>spawn_calls = [(''spawn'', ''elm'', [JStr ''make'', JStr ''Parent.elm''], JUndefined)],
       console = [LogJoined [JStr ''Running'', JStr ''elm'', JStr ''make'', JStr ''Parent.elm'']]\<rparr>) \<and>
   compileSync (example_env good_run (Inr [])) (JStr ''Parent.elm'')
     [(''foo'', JStr ''bar''), (''output'', JStr ''/dev/null''), (''verbose'', JBool True),
      (''cwd'', JStr ''fixtures''), (''length'', JNum 0)] world0 =
     (Inr good_run,
      \<lparr>spawn_calls = [(''spawn.sync'', ''elm'', [JStr ''make'', JStr ''Parent.elm''], JUndefined)],
       console = [LogJoined [JStr ''Running'', JStr ''elm'', JStr ''make'', JStr ''Parent.elm'']]\<rparr>)"
proof -
  have "truthy (JStr ''bar'') \<and> ''foo'' \<notin> set supportedOptions"
    by (simp add: supportedOptions_list)
  moreover have "compile (example_env good_run (Inr [])) (JStr ''Parent.elm'')
     [(''foo'', JStr ''bar''), (''output'', JStr ''/dev/null''), (''verbose'', JBool True),
      (''cwd'', JStr ''fixtures''), (''length'', JNum 0)] world0 =
     (Inr good_run,
      \<lparr>spawn_calls = [(''spawn'', ''elm'', [JStr ''make'', JStr ''Parent.elm''], JUndefined)],
       console = [LogJoined [JStr ''Running'', JStr ''elm'', JStr ''make'', JStr ''Parent.elm'']]\<rparr>)"
    by code_simp
  moreover have "compileSync (example_env good_run (Inr [])) (JStr ''Parent.elm'')
     [(''foo'', JStr ''bar''), (''output'', JStr ''/dev/null''), (''verbose'', JBool True),
      (''cwd'', JStr ''fixtures''), (''length'', JNum 0)] world0 =
     (Inr good_run,
      \<lparr>spawn_calls = [(''spawn.sync'', ''elm'', [JStr ''make'', JStr ''Parent.elm''], JUndefined)],
       console = [LogJoined [JStr ''Running'', JStr ''elm'', JStr ''make'', JStr ''Parent.elm'']]\<rparr>)"
    by code_simp
  ultimately show ?thesis by simp
qed




section \<open>The captured output\<close>

text \<open>
  Claim C4, as the code has it. In a run of \<^verbatim>\<open>compileToString\<close> that gets its temp
  file and its process handle: a close event with an exit code other than zero rejects
  the promise with an \<^verbatim>\<open>Error\<close> whose message is \<^verbatim>\<open>Compilation failed\<close>, a line
  break, and the chunks of both streams concatenated in order of arrival; an exit code of
  zero settles the promise with the outcome of reading the temp file, resolved with its
  text when the read succeeds and rejected with the read's error when it fails.
\<close>

theorem compileToString_settles:
  assumes "getSuffix E (get_prop options ''output'') ''.js'' = Inr suffix"
    and "temp_open E suffix = Inr path"
    and "compile E sources
           (set_prop ''processOpts'' piped (set_prop ''output'' (JStr path) options)) w =
         (Inr compiler, w')"
  shows "fst (compileToString E sources options w) =
           Inr (if exitCode compiler \<noteq> Some 0
                then Rejected (new_Error (''Compilation failed'' @ [newline] @
                                          concat (map snd (chunks compiler))))
                else (case readFile E path of
                        Inl err \<Rightarrow> Rejected err
                      | Inr data \<Rightarrow> Resolved data))"
  using assms
  by (simp add: compileToString_def Let_def collect_concat msg_failed_def split: sum.splits)

text \<open>The theorem at a run that exits with code 1 and at a run that exits with code 0.\<close>

theorem compileToString_settles_witness:
  "fst (compile (example_env failed_run (Inr [])) (JStr ''Bad.elm'')
          (set_prop ''processOpts'' piped (set_prop ''output'' (JStr ''/tmp/out.js'') [])) world0) =
     Inr failed_run \<and>
   fst (compileToString (example_env failed_run (Inr [])) (JStr ''Bad.elm'') [] world0) =
     Inr (Rejected (new_Error (''Compilation failed'' @ [newline] @
                               ''Detected problemsPARSE ERROR''))) \<and>
   fst (compile (example_env good_run (Inr ''compiled'')) (JStr ''Main.elm'')
          (set_prop ''processOpts'' piped (set_prop ''output'' (JStr ''/tmp/out.js'') [])) world0) =
     Inr good_run \<and>
   fst (compileToString (example_env good_run (Inr ''compiled'')) (JStr ''Main.elm'') [] world0) =
     Inr (Resolved ''compiled'')"
proof -
  let ?E1 = "example_env failed_run (Inr [])"
  let ?E2 = "example_env good_run (Inr ''compiled'')"
  let ?options' = "set_prop ''processOpts'' piped (set_prop ''output'' (JStr ''/tmp/out.js'') [])"
  have suffix1: "getSuffix ?E1 (get_prop [] ''output'') ''.js'' = Inr ''.js''"
    by (simp add: getSuffix_def get_prop_Nil)
  have suffix2: "getSuffix ?E2 (get_prop [] ''output'') ''.js'' = Inr ''.js''"
    by (simp add: getSuffix_def get_prop_Nil)
  have temp1: "temp_open ?E1 ''.js'' = Inr ''/tmp/out.js''" by (simp add: example_env_def)
  have temp2: "temp_open ?E2 ''.js'' = Inr ''/tmp/out.js''" by (simp add: example_env_def)
  have run1: "fst (compile ?E1 (JStr ''Bad.elm'') ?options' world0) = Inr failed_run"
    by code_simp
  have run2: "fst (compile ?E2 (JStr ''Main.elm'') ?options' world0) = Inr good_run"
    by code_simp
  have c1: "compile ?E1 (JStr ''Bad.elm'') ?options' world0 =
              (Inr failed_run, snd (compile ?E1 (JStr ''Bad.elm'') ?options' world0))"
    using run1 by (simp add: prod_eq_iff)
  have c2: "compile ?E2 (JStr ''Main.elm'') ?options' world0 =
              (Inr good_run, snd (compile ?E2 (JStr ''Main.elm'') ?options' world0))"
    using run2 by (simp add: prod_eq_iff)
  have read2: "readFile ?E2 ''/tmp/out.js'' = Inr ''compiled''" by (simp add: example_env_def)
  have "fst (compileToString ?E1 (JStr ''Bad.elm'') [] world0) =
     Inr (Rejected (new_Error (''Compilation failed'' @ [newline] @
                               ''Detected problemsPARSE ERROR'')))"
    using compileToString_settles [OF suffix1 temp1 c1] by (simp add: failed_run_def)
  moreover have "fst (compileToString ?E2 (JStr ''Main.elm'') [] world0) = Inr (Resolved ''compiled'')"
    using compileToString_settles [OF suffix2 temp2 c2] read2 by (simp add: good_run_def)
  ultimately show ?thesis using run1 run2 by simp
qed

text \<open>
  Claim C4 as stated fails: the process exits with code zero, the read of the temp file
  fails, and the promise is rejected with the read's error.
\<close>

theorem compileToString_rejects_on_failed_read:
  "fst (compile (example_env good_run (Inl read_error)) (JStr ''Main.elm'')
          (set_prop ''processOpts'' piped (set_prop ''output'' (JStr ''/tmp/out.js'') [])) world0) =
     Inr good_run \<and>
   exitCode good_run = Some 0 \<and>
   fst (compileToString (example_env good_run (Inl read_error)) (JStr ''Main.elm'') [] world0) =
     Inr (Rejected read_error)"
proof -
  have "fst (compile (example_env good_run (Inl read_error)) (JStr ''Main.elm'')
          (set_prop ''processOpts'' piped (set_prop ''output'' (JStr ''/tmp/out.js'') [])) world0) =
     Inr good_run" by code_simp
  moreover have "exitCode good_run = Some 0" by (simp add: good_run_def)
  moreover have "fst (compileToString (example_env good_run (Inl read_error)) (JStr ''Main.elm'') [] world0) =
     Inr (Rejected read_error)" by code_simp
  ultimately show ?thesis by simp
qed

text \<open>
  Claim C5, evaluated at a run that exits with code 1. \<^verbatim>\<open>compileSync\<close> returns the
  finished run, \<^verbatim>\<open>compileToStringSync\<close> does not look at it and returns what the
  temp file holds, here the empty text: no error reports the failed compilation.
\<close>

theorem compileToStringSync_ignores_exit_code:
  "fst (compileSync (example_env failed_run (Inr [])) (JStr ''Bad.elm'')
          (set_prop ''output'' (JStr ''/tmp/out.js'') []) world0) = Inr failed_run \<and>
   exitCode failed_run = Some 1 \<and>
   fst (compileToStringSync (example_env failed_run (Inr [])) (JStr ''Bad.elm'') [] world0) = Inr []"
proof -
  have "fst (compileSync (example_env failed_run (Inr [])) (JStr ''Bad.elm'')
          (set_prop ''output'' (JStr ''/tmp/out.js'') []) world0) = Inr failed_run" by code_simp
  moreover have "exitCode failed_run = Some 1" by (simp add: failed_run_def)
  moreover have "fst (compileToStringSync (example_env failed_run (Inr [])) (JStr ''Bad.elm'') [] world0) = Inr []"
    by code_simp
  ultimately show ?thesis by simp
qed

text \<open>
  Claim C10. Once \<^verbatim>\<open>compileToString\<close> has its temp file, the caller's options
  object has \<^verbatim>\<open>output\<close> set to the temp path and \<^verbatim>\<open>processOpts\<close> set to
  \<^verbatim>\<open>{stdio: "pipe"}\<close>, and stays so however the promise settles; the calls of the
  process-execution function are those of \<^verbatim>\<open>compile\<close> on the object so assigned,
  and whenever such a call was made the object has been assigned. The same holds for
  \<^verbatim>\<open>compileToStringSync\<close> and the \<^verbatim>\<open>output\<close> field.
\<close>

theorem capture_overwrites_caller_options:
  "(getSuffix E (get_prop options ''output'') ''.js'' = Inr suffix \<longrightarrow>
    temp_open E suffix = Inr path \<longrightarrow>
      fst (snd (compileToString E sources options w)) =
        set_prop ''processOpts'' piped (set_prop ''output'' (JStr path) options) \<and>
      get_prop (fst (snd (compileToString E sources options w))) ''output'' = JStr path \<and>
      get_prop (fst (snd (compileToString E sources options w))) ''processOpts'' =
        JObj [(''stdio'', JStr ''pipe'')] \<and>
      spawn_calls (snd (snd (compileToString E sources options w))) =
        spawn_calls (snd (compile E sources
          (set_prop ''processOpts'' piped (set_prop ''output'' (JStr path) options)) w))) \<and>
   (spawn_calls (snd (snd (compileToString E sources options w))) \<noteq> spawn_calls w \<longrightarrow>
      (\<exists>tmp. get_prop (fst (snd (compileToString E sources options w))) ''output'' = JStr tmp \<and>
             get_prop (fst (snd (compileToString E sources options w))) ''processOpts'' =
               JObj [(''stdio'', JStr ''pipe'')])) \<and>
   (getSuffix E (get_prop options ''output'') ''.js'' = Inr suffix \<longrightarrow>
    temp_openSync E suffix = Inr path \<longrightarrow>
      fst (snd (compileToStringSync E sources options w)) =
        set_prop ''output'' (JStr path) options \<and>
      get_prop (fst (snd (compileToStringSync E sources options w))) ''output'' = JStr path \<and>
      spawn_calls (snd (snd (compileToStringSync E sources options w))) =
        spawn_calls (snd (compileSync E sources (set_prop ''output'' (JStr path) options) w))) \<and>
   (spawn_calls (snd (snd (compileToStringSync E sources options w))) \<noteq> spawn_calls w \<longrightarrow>
      (\<exists>tmp. get_prop (fst (snd (compileToStringSync E sources options w))) ''output'' = JStr tmp))"
proof -
  let ?g = "getSuffix E (get_prop options ''output'') ''.js''"
  have a: "?g = Inr suffix \<Longrightarrow> temp_open E suffix = Inr path \<Longrightarrow>
      fst (snd (compileToString E sources options w)) =
        set_prop ''processOpts'' piped (set_prop ''output'' (JStr path) options) \<and>
      get_prop (fst (snd (compileToString E sources options w))) ''output'' = JStr path \<and>
      get_prop (fst (snd (compileToString E sources options w))) ''processOpts'' =
        JObj [(''stdio'', JStr ''pipe'')] \<and>
      spawn_calls (snd (snd (compileToString E sources options w))) =
        spawn_calls (snd (compile E sources
          (set_prop ''processOpts'' piped (set_prop ''output'' (JStr path) options)) w))"
    for suffix path
    using compileToString_with_temp [of E options suffix path sources w]
    by (simp add: get_prop_set_prop piped_def)
  have b: "spawn_calls (snd (snd (compileToString E sources options w))) \<noteq> spawn_calls w \<Longrightarrow>
      \<exists>tmp. get_prop (fst (snd (compileToString E sources options w))) ''output'' = JStr tmp \<and>
             get_prop (fst (snd (compileToString E sources options w))) ''processOpts'' =
               JObj [(''stdio'', JStr ''pipe'')]"
  proof (cases rule: temp_cases [where g = ?g and t = "temp_open E"])
    case (no_suffix e)
    assume "spawn_calls (snd (snd (compileToString E sources options w))) \<noteq> spawn_calls w"
    with no_suffix compileToString_no_temp [of E options e sources w] show ?thesis by simp
  next
    case (no_temp suffix e)
    assume "spawn_calls (snd (snd (compileToString E sources options w))) \<noteq> spawn_calls w"
    with no_temp compileToString_no_temp [of E options _ sources w] show ?thesis by simp
  next
    case (temp suffix path)
    from a [OF temp] show ?thesis by blast
  qed
  have c: "?g = Inr suffix \<Longrightarrow> temp_openSync E suffix = Inr path \<Longrightarrow>
      fst (snd (compileToStringSync E sources options w)) =
        set_prop ''output'' (JStr path) options \<and>
      get_prop (fst (snd (compileToStringSync E sources options w))) ''output'' = JStr path \<and>
      spawn_calls (snd (snd (compileToStringSync E sources options w))) =
        spawn_calls (snd (compileSync E sources (set_prop ''output'' (JStr path) options) w))"
    for suffix path
    using compileToStringSync_with_temp [of E options suffix path sources w]
    by (simp add: get_prop_set_prop)
  have d: "spawn_calls (snd (snd (compileToStringSync E sources options w))) \<noteq> spawn_calls w \<Longrightarrow>
      \<exists>tmp. get_prop (fst (snd (compileToStringSync E sources options w))) ''output'' = JStr tmp"
  proof (cases rule: temp_cases [where g = ?g and t = "temp_openSync E"])
    case (no_suffix e)
    assume "spawn_calls (snd (snd (compileToStringSync E sources options w))) \<noteq> spawn_calls w"
    with no_suffix compileToStringSync_no_temp [of E options e sources w] show ?thesis by simp
  next
    case (no_temp suffix e)
    assume "spawn_calls (snd (snd (compileToStringSync E sources options w))) \<noteq> spawn_calls w"
    with no_temp compileToStringSync_no_temp [of E options _ sources w] show ?thesis by simp
  next
    case (temp suffix path)
    from c [OF temp] show ?thesis by blast
  qed
  from a b c d show ?thesis by blast
qed

text \<open>The theorem at \<^verbatim>\<open>{verbose: true}\<close> and a successful run.\<close>

theorem capture_overwrites_caller_options_witness:
  "getSuffix (example_env good_run (Inr ''compiled'')) (get_prop [(''verbose'', JBool True)] ''output'') ''.js'' =
     Inr ''.js'' \<and>
   temp_open (example_env good_run (Inr ''compiled'')) ''.js'' = Inr ''/tmp/out.js'' \<and>
   temp_openSync (example_env good_run (Inr ''compiled'')) ''.js'' = Inr ''/tmp/out.js'' \<and>
   fst (snd (compileToString (example_env good_run (Inr ''compiled'')) (JStr ''Main.elm'')
               [(''verbose'', JBool True)] world0)) =
     [(''verbose'', JBool True), (''output'', JStr ''/tmp/out.js''),
      (''processOpts'', JObj [(''stdio'', JStr ''pipe'')])] \<and>
   fst (snd (compileToStringSync (example_env good_run (Inr ''compiled'')) (JStr ''Main.elm'')
               [(''verbose'', JBool True)] world0)) =
     [(''verbose'', JBool True), (''output'', JStr ''/tmp/out.js'')]"
proof -
  let ?E = "example_env good_run (Inr ''compiled'')"
  let ?options = "[(''verbose'', JBool True)]"
  have suffix: "getSuffix ?E (get_prop ?options ''output'') ''.js'' = Inr ''.js''"
    by (simp add: getSuffix_def get_prop_Cons get_prop_Nil)
  have temp: "temp_open ?E ''.js'' = Inr ''/tmp/out.js''" by (simp add: example_env_def)
  have tempSync: "temp_openSync ?E ''.js'' = Inr ''/tmp/out.js''" by (simp add: example_env_def)
  from capture_overwrites_caller_options
         [of ?E ?options "''.js''" "''/tmp/out.js''" "JStr ''Main.elm''" world0]
       suffix temp tempSync
  show ?thesis by (simp add: piped_def)
qed

end
